theory Spec2Isabelle
  imports Complex_Main
begin

section \<open>Voxel adjacency calculator (rhino\_highlighter.py)\<close>

text \<open>
  The script collects the voxels of four Rhino layers, compares every ordered pair of
  collected voxels, and records a neighbor relationship for each pair whose centre
  distance is at most \<open>ADJACENCY_THRESHOLD\<close>.

  Python floats are idealised as the reals: \<open>(a) ** 0.5\<close> on a sum of squares is
  \<open>sqrt\<close>, \<open>0.7\<close> and \<open>1.5\<close> are the rationals \<open>7/10\<close> and \<open>3/2\<close>.
  Rounding error, overflow and the non-finite floats are outside the model.
\<close>

subsection \<open>The host document\<close>

type_synonym guid = nat

record point3d =
  X :: real
  Y :: real
  Z :: real

text \<open>
  The three calls of \<open>rhinoscriptsyntax\<close> that the calculator makes. Each of them may
  return \<open>None\<close>.
\<close>

record rhino_doc =
  ObjectsByLayer :: "string \<Rightarrow> guid list option"
  GetUserText :: "guid \<Rightarrow> string \<Rightarrow> string option"
  BoundingBox :: "guid \<Rightarrow> point3d list option"

subsection \<open>Voxels and relationships\<close>

text \<open>
  The dictionaries appended to \<open>all_voxels\<close>; the keys \<open>'x'\<close>, \<open>'y'\<close>, \<open>'z'\<close> are
  the fields \<open>vx\<close>, \<open>vy\<close>, \<open>vz\<close>.
\<close>

record voxel =
  voxel_id :: string
  guid :: guid
  vx :: real
  vy :: real
  vz :: real

text \<open>The dictionaries appended to \<open>neighbor_relationships\<close>.\<close>

record relationship =
  from_voxel :: string
  to_voxel :: string
  direction :: string
  distance :: real

definition ADJACENCY_THRESHOLD :: real where
  "ADJACENCY_THRESHOLD = 15 / 10"

subsection \<open>determine\_direction\<close>

definition determine_direction :: "real \<Rightarrow> real \<Rightarrow> real \<Rightarrow> real \<Rightarrow> string" where
  "determine_direction dx dy dz d =
     (if d = 0 then ''same''
      else
        let dx_norm = \<bar>dx\<bar> / d;
            dy_norm = \<bar>dy\<bar> / d;
            dz_norm = \<bar>dz\<bar> / d
        in if dz_norm > 7 / 10 then (if dz > 0 then ''above'' else ''below'')
           else if dx_norm > dy_norm then (if dx > 0 then ''east'' else ''west'')
           else (if dy > 0 then ''north'' else ''south''))"

subsection \<open>Console output\<close>

text \<open>
  One constructor for each \<open>print\<close> of \<open>calculate_neighbors\<close> that interpolates a
  value; \<open>Text\<close> is a line without one.
\<close>

datatype message =
    Text string
  | LayerVoxels string nat
  | TotalCollected nat
  | CalculatingNeighbors real
  | Processed nat nat
  | FoundRelationships nat

subsection \<open>round(distance, 3)\<close>

text \<open>Python rounds to the nearest multiple of \<open>10 ** -ndigits\<close>, a tie to the even one.\<close>

definition round_half_even :: "real \<Rightarrow> int" where
  "round_half_even r =
     (let f = \<lfloor>r\<rfloor>; frac = r - of_int f
      in if frac < 1 / 2 then f
         else if frac > 1 / 2 then f + 1
         else if even f then f else f + 1)"

definition py_round :: "real \<Rightarrow> nat \<Rightarrow> real" where
  "py_round r ndigits = of_int (round_half_even (r * 10 ^ ndigits)) / 10 ^ ndigits"

subsection \<open>calculate\_neighbors, step 1: collecting the voxels\<close>

definition layers :: "string list" where
  "layers = [''Layer 01'', ''Layer 02'', ''Layer 03'', ''Layer 04'']"

text \<open>
  The body of \<open>for obj in objects\<close>, as the dictionary it appends, if any: both
  \<open>None\<close> and the empty string are falsy, and so are \<open>None\<close> and the empty list.
\<close>

definition collect_object :: "rhino_doc \<Rightarrow> guid \<Rightarrow> voxel option" where
  "collect_object rs obj =
     (case GetUserText rs obj ''voxel_id'' of
        None \<Rightarrow> None
      | Some vid \<Rightarrow>
          if vid = [] then None
          else
            (case BoundingBox rs obj of
               None \<Rightarrow> None
             | Some bbox \<Rightarrow>
                 if bbox \<noteq> [] \<and> length bbox \<ge> 7 then
                   Some \<lparr>voxel_id = vid, guid = obj,
                         vx = (X (bbox ! 0) + X (bbox ! 6)) / 2,
                         vy = (Y (bbox ! 0) + Y (bbox ! 6)) / 2,
                         vz = (Z (bbox ! 0) + Z (bbox ! 6)) / 2\<rparr>
                 else None))"

fun collect_objects :: "rhino_doc \<Rightarrow> guid list \<Rightarrow> voxel list \<Rightarrow> voxel list" where
  "collect_objects rs [] all_voxels = all_voxels"
| "collect_objects rs (obj # objects) all_voxels =
     (case collect_object rs obj of
        None \<Rightarrow> collect_objects rs objects all_voxels
      | Some v \<Rightarrow> collect_objects rs objects (all_voxels @ [v]))"

fun collect_layers ::
  "rhino_doc \<Rightarrow> string list \<Rightarrow> voxel list \<times> message list \<Rightarrow> voxel list \<times> message list"
where
  "collect_layers rs [] st = st"
| "collect_layers rs (layer # rest) (all_voxels, out) =
     (case ObjectsByLayer rs layer of
        None \<Rightarrow> collect_layers rs rest (all_voxels, out)
      | Some objects \<Rightarrow>
          if objects = [] then collect_layers rs rest (all_voxels, out)
          else collect_layers rs rest
                 (collect_objects rs objects all_voxels,
                  out @ [LayerVoxels layer (length objects)]))"

definition collect_voxels :: "rhino_doc \<Rightarrow> voxel list \<times> message list" where
  "collect_voxels rs =
     (let (all_voxels, out) =
            collect_layers rs layers
              ([], [Text ''[STEP 1] Collecting all voxels from all layers...''])
      in (all_voxels, out @ [TotalCollected (length all_voxels)]))"

subsection \<open>calculate\_neighbors, step 2: comparing the pairs\<close>

text \<open>The body of the inner loop after the test \<open>i == j\<close>.\<close>

definition neighbor_relationship :: "voxel \<Rightarrow> voxel \<Rightarrow> relationship option" where
  "neighbor_relationship voxel other =
     (let dx = vx other - vx voxel;
          dy = vy other - vy voxel;
          dz = vz other - vz voxel;
          d = sqrt (dx\<^sup>2 + dy\<^sup>2 + dz\<^sup>2)
      in if d \<le> ADJACENCY_THRESHOLD then
           Some \<lparr>from_voxel = voxel_id voxel, to_voxel = voxel_id other,
                 direction = determine_direction dx dy dz d,
                 distance = py_round d 3\<rparr>
         else None)"

fun inner_loop ::
  "nat \<Rightarrow> voxel \<Rightarrow> (nat \<times> voxel) list \<Rightarrow> relationship list \<Rightarrow> relationship list"
where
  "inner_loop i voxel [] neighbor_relationships = neighbor_relationships"
| "inner_loop i voxel ((j, other) # rest) neighbor_relationships =
     (if i = j then inner_loop i voxel rest neighbor_relationships
      else
        (case neighbor_relationship voxel other of
           None \<Rightarrow> inner_loop i voxel rest neighbor_relationships
         | Some r \<Rightarrow> inner_loop i voxel rest (neighbor_relationships @ [r])))"

fun outer_loop ::
  "voxel list \<Rightarrow> (nat \<times> voxel) list \<Rightarrow> relationship list \<times> message list
     \<Rightarrow> relationship list \<times> message list"
where
  "outer_loop all_voxels [] st = st"
| "outer_loop all_voxels ((i, voxel) # rest) (neighbor_relationships, out) =
     outer_loop all_voxels rest
       (inner_loop i voxel (enumerate 0 all_voxels) neighbor_relationships,
        if (i + 1) mod 1000 = 0 then out @ [Processed (i + 1) (length all_voxels)] else out)"

definition compute_neighbors :: "voxel list \<Rightarrow> relationship list \<times> message list" where
  "compute_neighbors all_voxels =
     outer_loop all_voxels (enumerate 0 all_voxels)
       ([], [CalculatingNeighbors ADJACENCY_THRESHOLD,
             Text ''  This may take several minutes for 16K voxels...''])"

definition calculate_neighbors :: "rhino_doc \<Rightarrow> relationship list \<times> message list" where
  "calculate_neighbors rs =
     (let (all_voxels, out1) = collect_voxels rs;
          (neighbor_relationships, out2) = compute_neighbors all_voxels
      in (neighbor_relationships,
          out1 @ out2 @ [FoundRelationships (length neighbor_relationships)]))"

text \<open>The relationships found among a given list of collected voxels.\<close>

definition neighbors_of :: "voxel list \<Rightarrow> relationship list" where
  "neighbors_of all_voxels = fst (compute_neighbors all_voxels)"

subsection \<open>export\_neighbors\_to\_csv\<close>





subsection \<open>Main execution\<close>




subsection \<open>Notions of the specification\<close>

text \<open>The Euclidean distance between the centres of two voxels.\<close>

definition euclidean_distance :: "voxel \<Rightarrow> voxel \<Rightarrow> real" where
  "euclidean_distance a b =
     sqrt ((vx b - vx a)\<^sup>2 + (vy b - vy a)\<^sup>2 + (vz b - vz a)\<^sup>2)"




text \<open>The objects that the four layers hold, in the order in which they are visited.\<close>

definition layer_objects :: "rhino_doc \<Rightarrow> string \<Rightarrow> guid list" where
  "layer_objects rs layer = (case ObjectsByLayer rs layer of None \<Rightarrow> [] | Some objects \<Rightarrow> objects)"

definition input_records :: "rhino_doc \<Rightarrow> guid list" where
  "input_records rs = concat (map (layer_objects rs) layers)"

text \<open>
  A record is valid when it supplies a non-empty id and a position; an object supplies
  its position through a bounding box of at least seven corners.
\<close>

definition valid_record :: "rhino_doc \<Rightarrow> guid \<Rightarrow> bool" where
  "valid_record rs obj \<longleftrightarrow>
     (case GetUserText rs obj ''voxel_id'' of None \<Rightarrow> False | Some vid \<Rightarrow> vid \<noteq> [])
     \<and> (case BoundingBox rs obj of None \<Rightarrow> False | Some bbox \<Rightarrow> 7 \<le> length bbox)"


text \<open>
  Registration as the specification describes it for duplicate ids: of the cells with
  one id only the last is kept.
\<close>

fun last_write_wins :: "voxel list \<Rightarrow> voxel list" where
  "last_write_wins [] = []"
| "last_write_wins (v # vs) =
     (if voxel_id v \<in> set (map voxel_id vs) then last_write_wins vs
      else v # last_write_wins vs)"


subsection \<open>Example inputs\<close>

text \<open>Scenario 1 of the specification: A(0,0,0), B(1,0,0), C(0,0,5).\<close>

definition voxel_A :: voxel where
  "voxel_A = \<lparr>voxel_id = ''A'', guid = 11, vx = 0, vy = 0, vz = 0\<rparr>"

definition voxel_B :: voxel where
  "voxel_B = \<lparr>voxel_id = ''B'', guid = 12, vx = 1, vy = 0, vz = 0\<rparr>"

definition voxel_C :: voxel where
  "voxel_C = \<lparr>voxel_id = ''C'', guid = 13, vx = 0, vy = 0, vz = 5\<rparr>"

definition scenario_1 :: "voxel list" where
  "scenario_1 = [voxel_A, voxel_B, voxel_C]"

text \<open>Two voxels with different ids whose centres coincide.\<close>

definition voxel_A' :: voxel where
  "voxel_A' = \<lparr>voxel_id = ''A2'', guid = 14, vx = 0, vy = 0, vz = 0\<rparr>"

definition coincident :: "voxel list" where
  "coincident = [voxel_A, voxel_A']"

definition voxel_D :: voxel where
  "voxel_D = \<lparr>voxel_id = ''D'', guid = 15, vx = 3 / 2, vy = 0, vz = 0\<rparr>"

definition boundary :: "voxel list" where
  "boundary = [voxel_A, voxel_D]"

text \<open>
  Documents with a single layer, given by the objects of \<open>Layer 01\<close>: guid, the user
  text \<open>voxel_id\<close> and the bounding box. \<open>unit_box\<close> is the box of eight corners that
  Rhino returns for a unit cube around a centre.
\<close>

definition unit_box :: "real \<Rightarrow> real \<Rightarrow> real \<Rightarrow> point3d list" where
  "unit_box cx cy cz =
     [\<lparr>X = cx - 1 / 2, Y = cy - 1 / 2, Z = cz - 1 / 2\<rparr>,
      \<lparr>X = cx + 1 / 2, Y = cy - 1 / 2, Z = cz - 1 / 2\<rparr>,
      \<lparr>X = cx + 1 / 2, Y = cy + 1 / 2, Z = cz - 1 / 2\<rparr>,
      \<lparr>X = cx - 1 / 2, Y = cy + 1 / 2, Z = cz - 1 / 2\<rparr>,
      \<lparr>X = cx - 1 / 2, Y = cy - 1 / 2, Z = cz + 1 / 2\<rparr>,
      \<lparr>X = cx + 1 / 2, Y = cy - 1 / 2, Z = cz + 1 / 2\<rparr>,
      \<lparr>X = cx + 1 / 2, Y = cy + 1 / 2, Z = cz + 1 / 2\<rparr>,
      \<lparr>X = cx - 1 / 2, Y = cy + 1 / 2, Z = cz + 1 / 2\<rparr>]"

definition single_layer_doc :: "(guid \<times> string option \<times> point3d list option) list \<Rightarrow> rhino_doc" where
  "single_layer_doc objs =
     \<lparr>ObjectsByLayer = (\<lambda>layer. if layer = ''Layer 01'' then Some (map fst objs) else None),
      GetUserText = (\<lambda>obj key. if key = ''voxel_id''
                        then (case map_of objs obj of None \<Rightarrow> None | Some (vid, bbox) \<Rightarrow> vid)
                        else None),
      BoundingBox = (\<lambda>obj. case map_of objs obj of None \<Rightarrow> None | Some (vid, bbox) \<Rightarrow> bbox)\<rparr>"

definition doc_AB :: rhino_doc where
  "doc_AB = single_layer_doc
     [(11, Some ''A'', Some (unit_box 0 0 0)), (12, Some ''B'', Some (unit_box 1 0 0))]"

text \<open>
  Two valid objects among seven invalid ones: without an id, with an empty id, without a
  bounding box, or with a bounding box of fewer than seven corners.
\<close>

definition doc_skip :: rhino_doc where
  "doc_skip = single_layer_doc
     [(11, Some ''A'', Some (unit_box 0 0 0)), (21, None, Some (unit_box 0 0 1)),
      (22, Some '''', Some (unit_box 0 1 0)), (23, Some ''E'', None),
      (24, None, None), (25, Some ''F'', Some (take 6 (unit_box 0 1 1))),
      (26, Some '''', None), (27, Some ''G'', Some []),
      (12, Some ''B'', Some (unit_box 1 0 0))]"

definition doc_dup :: rhino_doc where
  "doc_dup = single_layer_doc
     [(11, Some ''A'', Some (unit_box 0 0 0)), (12, Some ''A'', Some (unit_box 1 0 0))]"


section \<open>Properties\<close>

subsection \<open>The loops as list comprehensions\<close>

lemma in_set_map_filter:
  "y \<in> set (List.map_filter f xs) \<longleftrightarrow> (\<exists>x \<in> set xs. f x = Some y)"
  by (induction xs) (auto split: option.splits)

lemma inner_loop_eq:
  "inner_loop i voxel js acc =
     acc @ List.map_filter
             (\<lambda>(j, other). if i = j then None else neighbor_relationship voxel other) js"
proof (induction js arbitrary: acc)
  case Nil
  show ?case by simp
next
  case (Cons p js)
  obtain j other where p: "p = (j, other)" by (cases p)
  show ?case
  proof (cases "i = j")
    case True
    then show ?thesis using Cons.IH [of acc] by (simp add: p)
  next
    case False
    then show ?thesis
      by (cases "neighbor_relationship voxel other") (simp_all add: p Cons.IH)
  qed
qed

lemma outer_loop_fst:
  "fst (outer_loop vs ps (acc, out)) =
     acc @ concat (map (\<lambda>(i, voxel). List.map_filter
             (\<lambda>(j, other). if i = j then None else neighbor_relationship voxel other)
             (enumerate 0 vs)) ps)"
proof (induction ps arbitrary: acc out)
  case Nil
  show ?case by simp
next
  case (Cons p ps)
  obtain i voxel where p: "p = (i, voxel)" by (cases p)
  show ?case
    by (simp add: p Cons.IH inner_loop_eq)
qed

lemma neighbors_of_eq:
  "neighbors_of vs =
     concat (map (\<lambda>(i, voxel). List.map_filter
        (\<lambda>(j, other). if i = j then None else neighbor_relationship voxel other)
        (enumerate 0 vs)) (enumerate 0 vs))"
  by (simp add: neighbors_of_def compute_neighbors_def outer_loop_fst)

lemma in_neighbors_of_iff:
  "e \<in> set (neighbors_of vs) \<longleftrightarrow>
     (\<exists>i j. i < length vs \<and> j < length vs \<and> i \<noteq> j
            \<and> neighbor_relationship (vs ! i) (vs ! j) = Some e)"
proof
  assume "e \<in> set (neighbors_of vs)"
  then obtain p where p: "p \<in> set (enumerate 0 vs)"
     and e: "e \<in> set (List.map_filter
        (\<lambda>(j, other). if fst p = j then None else neighbor_relationship (snd p) other)
        (enumerate 0 vs))"
    unfolding neighbors_of_eq by (auto simp: case_prod_beta)
  from e obtain q where q: "q \<in> set (enumerate 0 vs)"
     and r: "(if fst p = fst q then None else neighbor_relationship (snd p) (snd q)) = Some e"
    unfolding in_set_map_filter by (auto simp: case_prod_beta)
  from p q have "fst p < length vs" "fst q < length vs" "snd p = vs ! fst p" "snd q = vs ! fst q"
    by (simp_all add: in_set_enumerate_eq)
  with r show "\<exists>i j. i < length vs \<and> j < length vs \<and> i \<noteq> j
            \<and> neighbor_relationship (vs ! i) (vs ! j) = Some e"
    by (metis option.distinct(1))
next
  assume "\<exists>i j. i < length vs \<and> j < length vs \<and> i \<noteq> j
            \<and> neighbor_relationship (vs ! i) (vs ! j) = Some e"
  then obtain i j where ij: "i < length vs" "j < length vs" "i \<noteq> j"
      and r: "neighbor_relationship (vs ! i) (vs ! j) = Some e"
    by blast
  have pi: "(i, vs ! i) \<in> set (enumerate 0 vs)" and pj: "(j, vs ! j) \<in> set (enumerate 0 vs)"
    using ij by (simp_all add: in_set_enumerate_eq)
  have "e \<in> set (List.map_filter
        (\<lambda>(j, other). if i = j then None else neighbor_relationship (vs ! i) other)
        (enumerate 0 vs))"
    unfolding in_set_map_filter using pj ij r by (intro bexI [of _ "(j, vs ! j)"]) simp_all
  then show "e \<in> set (neighbors_of vs)"
    unfolding neighbors_of_eq using pi by (auto intro!: bexI [of _ "(i, vs ! i)"])
qed

lemma neighbor_relationship_Some_iff:
  "neighbor_relationship a b = Some e \<longleftrightarrow>
     euclidean_distance a b \<le> ADJACENCY_THRESHOLD
     \<and> e = \<lparr>from_voxel = voxel_id a, to_voxel = voxel_id b,
            direction = determine_direction (vx b - vx a) (vy b - vy a) (vz b - vz a)
                          (euclidean_distance a b),
            distance = py_round (euclidean_distance a b) 3\<rparr>"
  unfolding neighbor_relationship_def euclidean_distance_def Let_def
  by (cases "sqrt ((vx b - vx a)\<^sup>2 + (vy b - vy a)\<^sup>2 + (vz b - vz a)\<^sup>2) \<le> ADJACENCY_THRESHOLD") auto




lemma distinct_ids_index:
  assumes "distinct (map voxel_id vs)" "i < length vs" "k < length vs"
          "voxel_id (vs ! k) = voxel_id (vs ! i)"
  shows "k = i"
proof -
  have "map voxel_id vs ! k = map voxel_id vs ! i" using assms by simp
  then show ?thesis
    using nth_eq_iff_index_eq [OF assms(1), of k i] assms by simp
qed




subsection \<open>Evaluating the examples\<close>

lemma sqrt_25: "sqrt 25 = 5"
  by (rule real_sqrt_unique) simp_all

lemma sqrt_9: "sqrt 9 = 3"
  by (rule real_sqrt_unique) simp_all

lemma sqrt_26: "\<not> sqrt 26 * 2 \<le> 3"
proof -
  have "5 < sqrt 26" by (rule real_less_rsqrt) simp
  then show ?thesis by simp
qed

lemmas example_defs =
  scenario_1_def coincident_def boundary_def voxel_A_def voxel_B_def voxel_C_def voxel_D_def
  voxel_A'_def

lemmas eval_defs =
  neighbors_of_def compute_neighbors_def neighbor_relationship_def ADJACENCY_THRESHOLD_def
  determine_direction_def py_round_def round_half_even_def Let_def sqrt_25 sqrt_26 sqrt_9
  real_sqrt_divide

lemma neighbors_of_scenario_1:
  "neighbors_of scenario_1 =
     [\<lparr>from_voxel = ''A'', to_voxel = ''B'', direction = ''east'', distance = 1\<rparr>,
      \<lparr>from_voxel = ''B'', to_voxel = ''A'', direction = ''west'', distance = 1\<rparr>]"
  by (simp add: example_defs eval_defs)


lemma neighbors_of_boundary:
  "neighbors_of boundary =
     [\<lparr>from_voxel = ''A'', to_voxel = ''D'', direction = ''east'', distance = 3 / 2\<rparr>,
      \<lparr>from_voxel = ''D'', to_voxel = ''A'', direction = ''west'', distance = 3 / 2\<rparr>]"
  by (simp add: example_defs eval_defs)

lemmas doc_defs = doc_AB_def doc_skip_def doc_dup_def single_layer_doc_def unit_box_def

lemmas collect_defs = collect_voxels_def layers_def collect_object_def



lemma collect_doc_dup:
  "collect_voxels doc_dup =
     ([\<lparr>voxel_id = ''A'', guid = 11, vx = 0, vy = 0, vz = 0\<rparr>,
       \<lparr>voxel_id = ''A'', guid = 12, vx = 1, vy = 0, vz = 0\<rparr>],
      [Text ''[STEP 1] Collecting all voxels from all layers...'',
       LayerVoxels ''Layer 01'' 2, TotalCollected 2])"
  by (simp add: doc_defs collect_defs example_defs)


lemma compute_neighbors_dup:
  "compute_neighbors [\<lparr>voxel_id = ''A'', guid = 11, vx = 0, vy = 0, vz = 0\<rparr>,
       \<lparr>voxel_id = ''A'', guid = 12, vx = 1, vy = 0, vz = 0\<rparr>] =
    ([\<lparr>from_voxel = ''A'', to_voxel = ''A'', direction = ''east'', distance = 1\<rparr>,
      \<lparr>from_voxel = ''A'', to_voxel = ''A'', direction = ''west'', distance = 1\<rparr>],
     [CalculatingNeighbors (3 / 2), Text ''  This may take several minutes for 16K voxels...''])"
  by (simp add: example_defs eval_defs)





subsection \<open>Collecting the voxels\<close>

lemma map_filter_append:
  "List.map_filter f (xs @ ys) = List.map_filter f xs @ List.map_filter f ys"
  by (simp add: List.map_filter_def)

lemma collect_objects_eq:
  "collect_objects rs objects acc = acc @ List.map_filter (collect_object rs) objects"
proof (induction objects arbitrary: acc)
  case Nil
  show ?case by simp
next
  case (Cons obj objects)
  show ?case
    by (cases "collect_object rs obj") (simp_all add: Cons.IH)
qed

lemma collect_layers_fst:
  "fst (collect_layers rs ls (acc, out)) =
     acc @ List.map_filter (collect_object rs) (concat (map (layer_objects rs) ls))"
proof (induction ls arbitrary: acc out)
  case Nil
  show ?case by simp
next
  case (Cons layer ls)
  show ?case
  proof (cases "ObjectsByLayer rs layer")
    case None
    then show ?thesis by (simp add: Cons.IH layer_objects_def)
  next
    case (Some objects)
    then show ?thesis
      by (simp add: Cons.IH layer_objects_def collect_objects_eq map_filter_append)
  qed
qed

lemma collect_layers_snd:
  "m \<in> set (snd (collect_layers rs ls (acc, out)))
     \<Longrightarrow> m \<in> set out \<or> (\<exists>layer n. m = LayerVoxels layer n)"
proof (induction ls arbitrary: acc out)
  case Nil
  then show ?case by simp
next
  case (Cons layer ls)
  show ?case
  proof (cases "ObjectsByLayer rs layer")
    case None
    with Cons.prems Cons.IH show ?thesis by simp
  next
    case (Some objects)
    show ?thesis
    proof (cases "objects = []")
      case True
      with Some Cons.prems Cons.IH show ?thesis by simp
    next
      case False
      with Some Cons.prems
      have "m \<in> set (snd (collect_layers rs ls
               (collect_objects rs objects acc, out @ [LayerVoxels layer (length objects)])))"
        by simp
      from Cons.IH [OF this] show ?thesis by auto
    qed
  qed
qed

lemma collected_eq:
  "fst (collect_voxels rs) = List.map_filter (collect_object rs) (input_records rs)"
proof -
  obtain vs out where c: "collect_layers rs layers
      ([], [Text ''[STEP 1] Collecting all voxels from all layers...'']) = (vs, out)"
    by (cases "collect_layers rs layers
      ([], [Text ''[STEP 1] Collecting all voxels from all layers...''])")
  have "vs = List.map_filter (collect_object rs) (input_records rs)"
    using collect_layers_fst [of rs layers "[]" "[Text ''[STEP 1] Collecting all voxels from all layers...'']"]
    by (simp add: c input_records_def)
  then show ?thesis by (simp add: collect_voxels_def c)
qed

lemma collect_object_valid: "collect_object rs obj \<noteq> None \<longleftrightarrow> valid_record rs obj"
  by (auto simp: collect_object_def valid_record_def split: option.splits)

lemma collect_object_Some:
  "collect_object rs obj = Some v
     \<Longrightarrow> guid v = obj \<and> GetUserText rs obj ''voxel_id'' = Some (voxel_id v)"
  by (auto simp: collect_object_def split: option.splits if_splits)

lemma calculate_neighbors_fst:
  "fst (calculate_neighbors rs) = neighbors_of (fst (collect_voxels rs))"
  by (simp add: calculate_neighbors_def neighbors_of_def split: prod.splits)










subsection \<open>The neighbor relation\<close>






text \<open>
  C4. Among collected voxels with pairwise distinct ids no recorded relationship leads
  from a voxel to itself.
\<close>

theorem no_self_edges:
  assumes "distinct (map voxel_id vs)" and "e \<in> set (neighbors_of vs)"
  shows "from_voxel e \<noteq> to_voxel e"
proof -
  from assms(2) obtain i j where ij: "i < length vs" "j < length vs" "i \<noteq> j"
      and r: "neighbor_relationship (vs ! i) (vs ! j) = Some e"
    unfolding in_neighbors_of_iff by blast
  from r have "from_voxel e = voxel_id (vs ! i)" "to_voxel e = voxel_id (vs ! j)"
    by (simp_all add: neighbor_relationship_Some_iff)
  then show ?thesis
    using distinct_ids_index [OF assms(1) ij(1) ij(2)] ij(3) by auto
qed

theorem no_self_edges_witness:
  "distinct (map voxel_id scenario_1)
   \<and> \<lparr>from_voxel = ''A'', to_voxel = ''B'', direction = ''east'', distance = 1\<rparr>
        \<in> set (neighbors_of scenario_1)
   \<and> from_voxel \<lparr>from_voxel = ''A'', to_voxel = ''B'', direction = ''east'', distance = 1\<rparr>
        \<noteq> to_voxel \<lparr>from_voxel = ''A'', to_voxel = ''B'', direction = ''east'', distance = 1\<rparr>"
proof -
  have d: "distinct (map voxel_id scenario_1)"
    by (simp add: example_defs)
  have m: "\<lparr>from_voxel = ''A'', to_voxel = ''B'', direction = ''east'', distance = 1\<rparr>
             \<in> set (neighbors_of scenario_1)"
    by (simp add: neighbors_of_scenario_1)
  show ?thesis
    using d m no_self_edges [OF d m] by blast
qed




subsection \<open>The direction classifier\<close>





subsection \<open>Registration\<close>

text \<open>
  C5 as the specification states it: of the records with one id only the last takes
  part, and a warning is issued. Two objects with the id \<open>A\<close> are both collected, both
  take part in the comparison (each is recorded as the neighbor of the other, where
  last-write-wins would leave a single cell and no relationship), and the console shows
  no warning.
\<close>

theorem duplicate_ids_all_kept_counterexample:
  "fst (collect_voxels doc_dup) =
     [\<lparr>voxel_id = ''A'', guid = 11, vx = 0, vy = 0, vz = 0\<rparr>,
      \<lparr>voxel_id = ''A'', guid = 12, vx = 1, vy = 0, vz = 0\<rparr>]
   \<and> last_write_wins (fst (collect_voxels doc_dup)) =
     [\<lparr>voxel_id = ''A'', guid = 12, vx = 1, vy = 0, vz = 0\<rparr>]
   \<and> neighbors_of (last_write_wins (fst (collect_voxels doc_dup))) = []
   \<and> calculate_neighbors doc_dup =
     ([\<lparr>from_voxel = ''A'', to_voxel = ''A'', direction = ''east'', distance = 1\<rparr>,
       \<lparr>from_voxel = ''A'', to_voxel = ''A'', direction = ''west'', distance = 1\<rparr>],
      [Text ''[STEP 1] Collecting all voxels from all layers...'',
       LayerVoxels ''Layer 01'' 2, TotalCollected 2,
       CalculatingNeighbors (3 / 2), Text ''  This may take several minutes for 16K voxels...'',
       FoundRelationships 2])"
proof -
  have "neighbors_of [\<lparr>voxel_id = ''A'', guid = 12, vx = 1, vy = 0, vz = 0\<rparr>] = []"
    by (simp add: neighbors_of_def compute_neighbors_def)
  then show ?thesis
    by (simp add: collect_doc_dup calculate_neighbors_def compute_neighbors_dup)
qed

text \<open>
  C5, amended. Records with the same id are all registered: the collected voxels are the
  valid records, one voxel for each, in input order and with the id of each, whether or
  not an id repeats; the relationships are computed over all of them; and the collecting
  step prints its heading, one count for each layer and the total, and no warning.
\<close>

theorem duplicate_ids_all_kept:
  "map (\<lambda>v. (guid v, Some (voxel_id v))) (fst (collect_voxels rs)) =
     map (\<lambda>obj. (obj, GetUserText rs obj ''voxel_id''))
       (filter (valid_record rs) (input_records rs))
   \<and> fst (calculate_neighbors rs) = neighbors_of (fst (collect_voxels rs))
   \<and> (\<forall>m \<in> set (snd (collect_voxels rs)).
        m = Text ''[STEP 1] Collecting all voxels from all layers...''
        \<or> (\<exists>layer n. m = LayerVoxels layer n) \<or> (\<exists>n. m = TotalCollected n))"
proof (intro conjI ballI)
  have f: "filter (\<lambda>x. collect_object rs x \<noteq> None) (input_records rs) =
           filter (valid_record rs) (input_records rs)"
    by (rule filter_cong [OF refl]) (rule collect_object_valid)
  have "(guid (the (collect_object rs obj)), Some (voxel_id (the (collect_object rs obj))))
        = (obj, GetUserText rs obj ''voxel_id'')" if "valid_record rs obj" for obj
  proof -
    from that obtain v where v: "collect_object rs obj = Some v"
      using collect_object_valid [of rs obj] by auto
    show ?thesis using collect_object_Some [OF v] by (simp add: v)
  qed
  then show "map (\<lambda>v. (guid v, Some (voxel_id v))) (fst (collect_voxels rs)) =
     map (\<lambda>obj. (obj, GetUserText rs obj ''voxel_id''))
       (filter (valid_record rs) (input_records rs))"
    unfolding collected_eq List.map_filter_def f map_map
    by (intro map_cong [OF refl]) simp
next
  show "fst (calculate_neighbors rs) = neighbors_of (fst (collect_voxels rs))"
    by (rule calculate_neighbors_fst)
next
  fix m assume m: "m \<in> set (snd (collect_voxels rs))"
  obtain vs out where c: "collect_layers rs layers
      ([], [Text ''[STEP 1] Collecting all voxels from all layers...'']) = (vs, out)"
    by (cases "collect_layers rs layers
      ([], [Text ''[STEP 1] Collecting all voxels from all layers...''])")
  from m have "m \<in> set out \<or> m = TotalCollected (length vs)"
    by (auto simp: collect_voxels_def c)
  moreover have "m \<in> set [Text ''[STEP 1] Collecting all voxels from all layers...'']
                 \<or> (\<exists>layer n. m = LayerVoxels layer n)" if "m \<in> set out"
    using collect_layers_snd [of m rs layers "[]"
            "[Text ''[STEP 1] Collecting all voxels from all layers...'']"] that
    by (simp add: c)
  ultimately show "m = Text ''[STEP 1] Collecting all voxels from all layers...''
        \<or> (\<exists>layer n. m = LayerVoxels layer n) \<or> (\<exists>n. m = TotalCollected n)"
    by auto
qed

theorem duplicate_ids_all_kept_witness:
  "map (\<lambda>v. (guid v, Some (voxel_id v))) (fst (collect_voxels doc_dup)) =
     [(11, Some ''A''), (12, Some ''A'')]
   \<and> LayerVoxels ''Layer 01'' 2 \<in> set (snd (collect_voxels doc_dup))"
proof -
  have v: "filter (valid_record doc_dup) (input_records doc_dup) = [11, 12]"
    by (simp add: input_records_def layer_objects_def layers_def valid_record_def doc_defs)
  have g: "map (\<lambda>obj. (obj, GetUserText doc_dup obj ''voxel_id'')) [11, 12] =
             [(11, Some ''A''), (12, Some ''A'')]"
    by (simp add: doc_defs)
  show ?thesis
    using duplicate_ids_all_kept [of doc_dup] unfolding v g
    by (simp add: collect_doc_dup)
qed




subsection \<open>Export and closing report\<close>







end
